theory Spec2Isabelle
  imports Complex_Main "HOL-Library.Multiset"
begin

section \<open>Data model of \<^verbatim>\<open>facefusion/face_analyser.py\<close>\<close>

text \<open>
  Python exceptions are values. \<open>get_many_faces\<close> catches \<open>AttributeError\<close> and
  \<open>ValueError\<close> only; \<open>IndexError\<close> is what a list index out of range raises, and
  \<open>BackendError\<close> stands for any failure of the detector or of the recognizer
  (\<^verbatim>\<open>cv2.error\<close>, an ONNX runtime failure), which no handler of the module catches.
\<close>

datatype error = AttributeError | ValueError | IndexError | BackendError

text \<open>
  A frame is a numpy array: its \<open>shape\<close> and its contents. The contents are never read
  by this module itself, only by the detector, the recognizer and the cache.
\<close>

record frame =
  shape :: "nat list"
  pixels :: "nat list"

text \<open>
  Modelled from the spec: the type \<open>Face\<close> of \<^verbatim>\<open>facefusion.typing\<close>, which is not part of
  the sources at hand. The bounding box holds four floats \<open>(x1, y1, x2, y2)\<close>, read by the
  code as \<^verbatim>\<open>bbox[0]\<close> .. \<^verbatim>\<open>bbox[3]\<close>. Floats are modelled by reals. The field
  \<open>normed_embedding\<close> is optional because \<open>find_similar_faces\<close> asks
  \<^verbatim>\<open>hasattr(face, 'normed_embedding')\<close>: \<open>None\<close> is a face without that attribute.
\<close>

record bbox =
  x1 :: real
  y1 :: real
  x2 :: real
  y2 :: real

record face =
  bbox :: bbox
  kps :: "real list list"
  score :: real
  embedding :: "real list"
  normed_embedding :: "real list option"
  gender :: int
  age :: int

text \<open>
  \<^verbatim>\<open>FACE_ANALYSER\<close>: the two capability objects. The detector maps a frame to its matrix
  of detections, one row of floats for each face; OpenCV hands Python \<open>None\<close> in place
  of the matrix when it found no face. The recognizer stands for \<open>warp_face\<close>, the
  rescaling of the crop and the inference session inside \<open>create_embedding\<close>.
\<close>

record face_analyser =
  face_detector :: "frame \<Rightarrow> error + real list list option"
  face_recognition :: "frame \<Rightarrow> real list list \<Rightarrow> error + real list"

text \<open>\<^verbatim>\<open>facefusion.globals\<close>: the three optional selectors read by \<open>get_many_faces\<close>.\<close>

record globals =
  face_analyser_direction :: "string option"
  face_analyser_age :: "string option"
  face_analyser_gender :: "string option"

text \<open>
  The mutable state: the frame cache, and a log of the frames handed to the detector,
  which makes "the detector is not invoked again" a statement about the state.
\<close>

record state =
  faces_cache :: "frame \<rightharpoonup> face list"
  detect_log :: "frame list"

section \<open>Python and numpy primitives\<close>

text \<open>\<^verbatim>\<open>xs[i]\<close>: negative indices count from the end, out of range raises.\<close>

definition py_index :: "'a list \<Rightarrow> int \<Rightarrow> error + 'a" where
  "py_index xs i =
     (if 0 \<le> i \<and> i < int (length xs) then Inr (xs ! nat i)
      else if i < 0 \<and> - int (length xs) \<le> i then Inr (xs ! nat (int (length xs) + i))
      else Inl IndexError)"

text \<open>
  \<^verbatim>\<open>sorted(xs, key = k, reverse = r)\<close>: a stable sort; with \<open>reverse\<close> the list is
  reversed, sorted and reversed again, so that equal keys keep their original order.
\<close>

definition sorted_py :: "('a \<Rightarrow> real) \<Rightarrow> bool \<Rightarrow> 'a list \<Rightarrow> 'a list" where
  "sorted_py key reverse xs =
     (if reverse then rev (sort_key key (rev xs)) else sort_key key xs)"

text \<open>Truthiness of an optional string: \<open>None\<close> and the empty string are false.\<close>

definition truthy :: "string option \<Rightarrow> bool" where
  "truthy v = (case v of None \<Rightarrow> False | Some s \<Rightarrow> s \<noteq> [])"

text \<open>\<^verbatim>\<open>detections.any()\<close>: some entry of the matrix is not zero.\<close>

definition any_nonzero :: "real list list \<Rightarrow> bool" where
  "any_nonzero rows = list_ex (\<lambda>row. list_ex (\<lambda>v. v \<noteq> 0) row) rows"

text \<open>\<^verbatim>\<open>a.reshape((5, 2))\<close>: ten values as five pairs, \<open>ValueError\<close> for any other size.\<close>

fun pairs_of :: "real list \<Rightarrow> real list list" where
  "pairs_of (a # b # rest) = [a, b] # pairs_of rest"
| "pairs_of _ = []"

definition reshape_5_2 :: "real list \<Rightarrow> error + real list list" where
  "reshape_5_2 a = (if length a = 10 then Inr (pairs_of a) else Inl ValueError)"

text \<open>\<^verbatim>\<open>numpy.linalg.norm\<close> and \<^verbatim>\<open>numpy.dot\<close> of one-dimensional arrays, over the reals.\<close>

definition linalg_norm :: "real list \<Rightarrow> real" where
  "linalg_norm v = sqrt (sum_list (map (\<lambda>c. c * c) v))"

definition dot :: "real list \<Rightarrow> real list \<Rightarrow> real" where
  "dot a b = sum_list (map (\<lambda>(c, d). c * d) (zip a b))"

definition numpy_dot :: "real list \<Rightarrow> real list \<Rightarrow> error + real" where
  "numpy_dot a b = (if length a = length b then Inr (dot a b) else Inl ValueError)"

section \<open>The frame cache\<close>

text \<open>
  Modelled from the spec: \<open>get_faces_cache\<close> and \<open>set_faces_cache\<close> of
  \<^verbatim>\<open>facefusion.face_cache\<close>, which is not part of the sources at hand. The spec gives the
  cache collaborator as \<^verbatim>\<open>get(frame) -> optional<sequence<Face>>\<close> and
  \<^verbatim>\<open>put(frame, sequence<Face>)\<close>, keyed by the frame's contents.
\<close>

definition get_faces_cache :: "state \<Rightarrow> frame \<Rightarrow> face list option" where
  "get_faces_cache s fr = faces_cache s fr"

definition set_faces_cache :: "state \<Rightarrow> frame \<Rightarrow> face list \<Rightarrow> state" where
  "set_faces_cache s fr faces = s\<lparr>faces_cache := (faces_cache s)(fr \<mapsto> faces)\<rparr>"

section \<open>Sorting and filtering\<close>

definition sort_by_direction :: "face list \<Rightarrow> string \<Rightarrow> face list" where
  "sort_by_direction faces direction =
     (if direction = ''left-right'' then sorted_py (\<lambda>f. x1 (bbox f)) False faces
      else if direction = ''right-left'' then sorted_py (\<lambda>f. x1 (bbox f)) True faces
      else if direction = ''top-bottom'' then sorted_py (\<lambda>f. y1 (bbox f)) False faces
      else if direction = ''bottom-top'' then sorted_py (\<lambda>f. y1 (bbox f)) True faces
      else if direction = ''small-large'' then
        sorted_py (\<lambda>f. (x2 (bbox f) - x1 (bbox f)) * (y2 (bbox f) - y1 (bbox f))) False faces
      else if direction = ''large-small'' then
        sorted_py (\<lambda>f. (x2 (bbox f) - x1 (bbox f)) * (y2 (bbox f) - y1 (bbox f))) True faces
      else faces)"

text \<open>The loops append to \<open>filter_faces\<close> face by face, in the order of the input.\<close>

fun filter_by_age :: "face list \<Rightarrow> string \<Rightarrow> face list" where
  "filter_by_age [] a = []"
| "filter_by_age (f # fs) a =
     (if age f < 13 \<and> a = ''child'' then [f]
      else if age f < 19 \<and> a = ''teen'' then [f]
      else if age f < 60 \<and> a = ''adult'' then [f]
      else if age f > 59 \<and> a = ''senior'' then [f]
      else []) @ filter_by_age fs a"

fun filter_by_gender :: "face list \<Rightarrow> string \<Rightarrow> face list" where
  "filter_by_gender [] g = []"
| "filter_by_gender (f # fs) g =
     (if gender f = 1 \<and> g = ''male'' then [f] else []) @
     (if gender f = 0 \<and> g = ''female'' then [f] else []) @
     filter_by_gender fs g"

section \<open>Detection\<close>

definition create_embedding :: "face_analyser \<Rightarrow> frame \<Rightarrow> real list list \<Rightarrow> error + real list" where
  "create_embedding fa temp_frame k = face_recognition fa temp_frame k"

text \<open>
  One turn of the loop of \<open>extract_faces\<close>. The slice \<^verbatim>\<open>detection[0:4]\<close> never raises;
  the reshape raises \<open>ValueError\<close> unless \<^verbatim>\<open>detection[4:14]\<close> has ten values, and
  \<^verbatim>\<open>detection[14]\<close> raises \<open>IndexError\<close> on a row of fourteen. So a face that is built
  has a row of at least fifteen values behind it, and its box has four. Dividing by a
  norm of zero raises nothing in numpy.
\<close>

definition face_of_detection :: "face_analyser \<Rightarrow> frame \<Rightarrow> real list \<Rightarrow> error + face" where
  "face_of_detection fa fr detection =
     (case reshape_5_2 (take 10 (drop 4 detection)) of
        Inl e \<Rightarrow> Inl e
      | Inr k \<Rightarrow>
          (case py_index detection 14 of
             Inl e \<Rightarrow> Inl e
           | Inr sc \<Rightarrow>
               (case create_embedding fa fr k of
                  Inl e \<Rightarrow> Inl e
                | Inr emb \<Rightarrow>
                    Inr \<lparr>bbox = \<lparr>x1 = detection ! 0, y1 = detection ! 1,
                                 x2 = detection ! 2, y2 = detection ! 3\<rparr>,
                         kps = k,
                         score = sc,
                         embedding = emb,
                         normed_embedding = Some (map (\<lambda>c. c / linalg_norm emb) emb),
                         gender = 0,
                         age = 0\<rparr>)))"

fun detection_faces :: "face_analyser \<Rightarrow> frame \<Rightarrow> real list list \<Rightarrow> error + face list" where
  "detection_faces fa fr [] = Inr []"
| "detection_faces fa fr (detection # rest) =
     (case face_of_detection fa fr detection of
        Inl e \<Rightarrow> Inl e
      | Inr f \<Rightarrow>
          (case detection_faces fa fr rest of
             Inl e \<Rightarrow> Inl e
           | Inr fs \<Rightarrow> Inr (f # fs)))"

text \<open>
  \<open>extract_faces\<close>: unpacking \<^verbatim>\<open>frame.shape\<close> into three names raises \<open>ValueError\<close>
  unless the frame has three dimensions; then the detector runs (and is logged);
  \<^verbatim>\<open>detections.any()\<close> raises \<open>AttributeError\<close> on \<open>None\<close>.
\<close>

definition extract_faces :: "face_analyser \<Rightarrow> state \<Rightarrow> frame \<Rightarrow> (error + face list) \<times> state" where
  "extract_faces fa s fr =
     (case shape fr of
        [height, width, channels] \<Rightarrow>
          (let s' = s\<lparr>detect_log := detect_log s @ [fr]\<rparr> in
           case face_detector fa fr of
             Inl e \<Rightarrow> (Inl e, s')
           | Inr None \<Rightarrow> (Inl AttributeError, s')
           | Inr (Some detections) \<Rightarrow>
               if any_nonzero detections then (detection_faces fa fr detections, s')
               else (Inr [], s'))
      | _ \<Rightarrow> (Inl ValueError, s))"

section \<open>The query layer\<close>

text \<open>
  The body of the \<^verbatim>\<open>try\<close> of \<open>get_many_faces\<close>. \<^verbatim>\<open>if faces_cache:\<close> is a truth test:
  a missing entry and an entry holding the empty list both take the \<^verbatim>\<open>else\<close> branch.
\<close>

definition cached_or_extracted :: "face_analyser \<Rightarrow> state \<Rightarrow> frame \<Rightarrow> (error + face list) \<times> state" where
  "cached_or_extracted fa s fr =
     (case get_faces_cache s fr of
        Some (f # fs) \<Rightarrow> (Inr (f # fs), s)
      | _ \<Rightarrow>
          (case extract_faces fa s fr of
             (Inl e, s') \<Rightarrow> (Inl e, s')
           | (Inr faces, s') \<Rightarrow> (Inr faces, set_faces_cache s' fr faces)))"

definition sorted_and_filtered :: "globals \<Rightarrow> face list \<Rightarrow> face list" where
  "sorted_and_filtered g faces0 =
     (let faces1 = (if truthy (face_analyser_direction g)
                    then sort_by_direction faces0 (the (face_analyser_direction g)) else faces0);
          faces2 = (if truthy (face_analyser_age g)
                    then filter_by_age faces1 (the (face_analyser_age g)) else faces1);
          faces3 = (if truthy (face_analyser_gender g)
                    then filter_by_gender faces2 (the (face_analyser_gender g)) else faces2)
      in faces3)"

definition get_many_faces_try :: "globals \<Rightarrow> face_analyser \<Rightarrow> state \<Rightarrow> frame \<Rightarrow> (error + face list) \<times> state" where
  "get_many_faces_try g fa s fr =
     (case cached_or_extracted fa s fr of
        (Inl e, s') \<Rightarrow> (Inl e, s')
      | (Inr faces, s') \<Rightarrow> (Inr (sorted_and_filtered g faces), s'))"

text \<open>\<open>get_many_faces\<close>: the body under \<^verbatim>\<open>except (AttributeError, ValueError): return []\<close>.\<close>

definition get_many_faces :: "globals \<Rightarrow> face_analyser \<Rightarrow> state \<Rightarrow> frame \<Rightarrow> (error + face list) \<times> state" where
  "get_many_faces g fa s fr =
     (case get_many_faces_try g fa s fr of
        (Inl AttributeError, s') \<Rightarrow> (Inr [], s')
      | (Inl ValueError, s') \<Rightarrow> (Inr [], s')
      | (Inl e, s') \<Rightarrow> (Inl e, s')
      | (Inr faces, s') \<Rightarrow> (Inr faces, s'))"

definition get_one_face :: "globals \<Rightarrow> face_analyser \<Rightarrow> state \<Rightarrow> frame \<Rightarrow> int \<Rightarrow> (error + face option) \<times> state" where
  "get_one_face g fa s fr position =
     (case get_many_faces g fa s fr of
        (Inl e, s') \<Rightarrow> (Inl e, s')
      | (Inr many_faces, s') \<Rightarrow>
          if many_faces \<noteq> [] then
            (case py_index many_faces position of
               Inr f \<Rightarrow> (Inr (Some f), s')
             | Inl IndexError \<Rightarrow> (Inr (Some (last many_faces)), s')
             | Inl e \<Rightarrow> (Inl e, s'))
          else (Inr None, s'))"

text \<open>
  The loop of \<open>find_similar_faces\<close>; \<^verbatim>\<open>numpy.dot\<close> raises \<open>ValueError\<close> on two vectors of
  different lengths, and nothing here catches it.
\<close>

fun similar_faces :: "face list \<Rightarrow> face \<Rightarrow> real \<Rightarrow> error + face list" where
  "similar_faces [] reference_face face_distance = Inr []"
| "similar_faces (f # fs) reference_face face_distance =
     (case (normed_embedding f, normed_embedding reference_face) of
        (Some a, Some b) \<Rightarrow>
          (case numpy_dot a b of
             Inl e \<Rightarrow> Inl e
           | Inr d \<Rightarrow>
               (case similar_faces fs reference_face face_distance of
                  Inl e \<Rightarrow> Inl e
                | Inr rest \<Rightarrow> Inr (if 1 - d < face_distance then f # rest else rest)))
      | _ \<Rightarrow> similar_faces fs reference_face face_distance)"

definition find_similar_faces :: "globals \<Rightarrow> face_analyser \<Rightarrow> state \<Rightarrow> frame \<Rightarrow> face \<Rightarrow> real \<Rightarrow> (error + face list) \<times> state" where
  "find_similar_faces g fa s fr reference_face face_distance =
     (case get_many_faces g fa s fr of
        (Inl e, s') \<Rightarrow> (Inl e, s')
      | (Inr many_faces, s') \<Rightarrow>
          if many_faces \<noteq> [] then (similar_faces many_faces reference_face face_distance, s')
          else (Inr [], s'))"

section \<open>Concrete inputs\<close>

text \<open>
  Inputs on which the theorems below are evaluated: a face given by its left edge, gender
  and age; a frame given by its shape; an analyser whose detector answers every frame
  with the same detections and whose recognizer answers with a fixed embedding; no
  selector set; nothing cached and nothing detected yet; one row of detector output.
\<close>

definition sample_face :: "real \<Rightarrow> int \<Rightarrow> int \<Rightarrow> face" where
  "sample_face x g a =
     \<lparr>bbox = \<lparr>x1 = x, y1 = 0, x2 = x + 10, y2 = 10\<rparr>, kps = [], score = 1,
      embedding = [], normed_embedding = None, gender = g, age = a\<rparr>"

definition sample_frame :: "nat list \<Rightarrow> frame" where
  "sample_frame sh = \<lparr>shape = sh, pixels = [7, 7, 7]\<rparr>"

definition sample_analyser :: "real list list option \<Rightarrow> face_analyser" where
  "sample_analyser detections =
     \<lparr>face_detector = (\<lambda>fr. Inr detections), face_recognition = (\<lambda>fr k. Inr [0, 1])\<rparr>"

definition no_globals :: globals where
  "no_globals =
     \<lparr>face_analyser_direction = None, face_analyser_age = None, face_analyser_gender = None\<rparr>"

definition empty_state :: state where
  "empty_state = \<lparr>faces_cache = Map.empty, detect_log = []\<rparr>"

definition sample_row :: "real list" where
  "sample_row = [0, 0, 10, 10, 1, 1, 2, 2, 3, 3, 4, 4, 5, 5, 1]"

definition cached_state :: "frame \<Rightarrow> face list \<Rightarrow> frame list \<Rightarrow> state" where
  "cached_state fr faces detected = \<lparr>faces_cache = [fr \<mapsto> faces], detect_log = detected\<rparr>"

text \<open>The face that \<open>extract_faces\<close> builds from \<open>sample_row\<close> with \<open>sample_analyser\<close>.\<close>

definition sample_row_face :: face where
  "sample_row_face =
     \<lparr>bbox = \<lparr>x1 = 0, y1 = 0, x2 = 10, y2 = 10\<rparr>,
      kps = [[1, 1], [2, 2], [3, 3], [4, 4], [5, 5]], score = 1,
      embedding = [0, 1], normed_embedding = Some [0, 1], gender = 0, age = 0\<rparr>"

lemmas sample_defs = sample_face_def sample_frame_def sample_analyser_def no_globals_def
  empty_state_def sample_row_def cached_state_def sample_row_face_def

lemmas run_defs = get_many_faces_def get_many_faces_try_def cached_or_extracted_def
  get_faces_cache_def set_faces_cache_def extract_faces_def any_nonzero_def
  face_of_detection_def reshape_5_2_def py_index_def create_embedding_def linalg_norm_def
  sorted_and_filtered_def truthy_def

section \<open>The filters as list filters\<close>

lemma filter_by_age_adult: "filter_by_age faces ''adult'' = filter (\<lambda>f. age f < 60) faces"
  by (induction faces) auto

lemma filter_by_age_senior: "filter_by_age faces ''senior'' = filter (\<lambda>f. age f > 59) faces"
  by (induction faces) auto

lemma filter_by_gender_male: "filter_by_gender faces ''male'' = filter (\<lambda>f. gender f = 1) faces"
  by (induction faces) auto

lemma filter_by_gender_female: "filter_by_gender faces ''female'' = filter (\<lambda>f. gender f = 0) faces"
  by (induction faces) auto

lemma filter_by_age_unknown:
  "a \<notin> {''child'', ''teen'', ''adult'', ''senior''} \<Longrightarrow> filter_by_age faces a = []"
  by (induction faces) auto

lemma filter_by_gender_unknown:
  "g \<notin> {''male'', ''female''} \<Longrightarrow> filter_by_gender faces g = []"
  by (induction faces) auto

section \<open>Age bands\<close>

text \<open>
  C3 (as the spec states it, refuted): a face of age 59 would be kept neither by class
  \<open>adult\<close> nor by class \<open>senior\<close>. The test of the \<open>adult\<close> branch is \<^verbatim>\<open>face.age < 60\<close>,
  which 59 passes: the face is kept.
\<close>

theorem age_59_kept_as_adult:
  "filter_by_age [sample_face 0 0 59] ''adult'' = [sample_face 0 0 59]"
  by (simp add: sample_face_def)

text \<open>
  C3 (amended): in every face list, a face of age 59 is kept by class \<open>adult\<close> and is not
  kept by class \<open>senior\<close>.
\<close>

theorem age_59_adult_not_senior:
  "age f = 59 \<Longrightarrow> f \<in> set faces \<Longrightarrow>
     f \<in> set (filter_by_age faces ''adult'') \<and> f \<notin> set (filter_by_age faces ''senior'')"
  by (simp add: filter_by_age_adult filter_by_age_senior)

theorem age_59_adult_not_senior_witness:
  "age (sample_face 0 0 59) = 59
   \<and> sample_face 0 0 59 \<in> set [sample_face 5 1 30, sample_face 0 0 59]
   \<and> sample_face 0 0 59 \<in> set (filter_by_age [sample_face 5 1 30, sample_face 0 0 59] ''adult'')
   \<and> sample_face 0 0 59 \<notin> set (filter_by_age [sample_face 5 1 30, sample_face 0 0 59] ''senior'')"
  using age_59_adult_not_senior [of "sample_face 0 0 59" "[sample_face 5 1 30, sample_face 0 0 59]"]
  by (simp add: sample_face_def)

section \<open>Gender classes\<close>

text \<open>
  C8: the results of \<open>filter_by_gender\<close> for \<open>male\<close> and for \<open>female\<close> share no face, and
  together they are the input without the faces whose gender is neither 0 nor 1; this
  holds of the faces as a set, and with multiplicities as well.
\<close>

theorem gender_partition:
  "set (filter_by_gender faces ''male'') \<inter> set (filter_by_gender faces ''female'') = {}
   \<and> set (filter_by_gender faces ''male'') \<union> set (filter_by_gender faces ''female'')
       = set faces - {f. gender f \<noteq> 0 \<and> gender f \<noteq> 1}
   \<and> mset (filter_by_gender faces ''male'') + mset (filter_by_gender faces ''female'')
       = mset (filter (\<lambda>f. gender f = 0 \<or> gender f = 1) faces)"
proof (intro conjI)
  show "set (filter_by_gender faces ''male'') \<inter> set (filter_by_gender faces ''female'') = {}"
    by (auto simp: filter_by_gender_male filter_by_gender_female)
  show "set (filter_by_gender faces ''male'') \<union> set (filter_by_gender faces ''female'')
       = set faces - {f. gender f \<noteq> 0 \<and> gender f \<noteq> 1}"
    by (auto simp: filter_by_gender_male filter_by_gender_female)
  show "mset (filter_by_gender faces ''male'') + mset (filter_by_gender faces ''female'')
       = mset (filter (\<lambda>f. gender f = 0 \<or> gender f = 1) faces)"
    unfolding filter_by_gender_male filter_by_gender_female
    by (induction faces) auto
qed

theorem gender_partition_witness:
  "filter_by_gender [sample_face 0 1 20, sample_face 1 2 30, sample_face 2 0 40] ''male''
     = [sample_face 0 1 20]
   \<and> filter_by_gender [sample_face 0 1 20, sample_face 1 2 30, sample_face 2 0 40] ''female''
     = [sample_face 2 0 40]
   \<and> set (filter_by_gender [sample_face 0 1 20, sample_face 1 2 30, sample_face 2 0 40] ''male'')
     \<union> set (filter_by_gender [sample_face 0 1 20, sample_face 1 2 30, sample_face 2 0 40] ''female'')
     = set [sample_face 0 1 20, sample_face 1 2 30, sample_face 2 0 40]
       - {f. gender f \<noteq> 0 \<and> gender f \<noteq> 1}"
  using gender_partition [of "[sample_face 0 1 20, sample_face 1 2 30, sample_face 2 0 40]"]
  by (simp add: sample_face_def)

section \<open>Unrecognized classes\<close>

text \<open>
  C10: for a class outside \<open>child\<close>, \<open>teen\<close>, \<open>adult\<close>, \<open>senior\<close> the age filter returns
  the empty list, and so does the gender filter for a class outside \<open>male\<close>, \<open>female\<close>;
  \<open>sort_by_direction\<close> returns its input unchanged for a direction it does not know.
\<close>

theorem unknown_class_filters_empty:
  assumes "a \<notin> {''child'', ''teen'', ''adult'', ''senior''}"
    and "g \<notin> {''male'', ''female''}"
    and "d \<notin> {''left-right'', ''right-left'', ''top-bottom'', ''bottom-top'',
               ''small-large'', ''large-small''}"
  shows "filter_by_age faces a = [] \<and> filter_by_gender faces g = []
         \<and> sort_by_direction faces d = faces"
  using assms by (simp add: filter_by_age_unknown filter_by_gender_unknown sort_by_direction_def)

theorem unknown_class_filters_empty_witness:
  "''elder'' \<notin> {''child'', ''teen'', ''adult'', ''senior''}
   \<and> ''other'' \<notin> {''male'', ''female''}
   \<and> ''diagonal'' \<notin> {''left-right'', ''right-left'', ''top-bottom'', ''bottom-top'',
                       ''small-large'', ''large-small''}
   \<and> filter_by_age [sample_face 5 1 30, sample_face 0 0 70] ''elder'' = []
   \<and> filter_by_gender [sample_face 5 1 30, sample_face 0 0 70] ''other'' = []
   \<and> sort_by_direction [sample_face 5 1 30, sample_face 0 0 70] ''diagonal''
       = [sample_face 5 1 30, sample_face 0 0 70]"
  using unknown_class_filters_empty
    [of "''elder''" "''other''" "''diagonal''" "[sample_face 5 1 30, sample_face 0 0 70]"]
  by simp

section \<open>Sorting by direction\<close>

text \<open>With distinct keys a list has one sorted arrangement only.\<close>

lemma sort_key_unique:
  assumes "distinct (map k xs)" and "mset ys = mset xs" and "sorted (map k ys)"
  shows "ys = sort_key k xs"
proof -
  have d: "distinct (map k ys)"
    using assms(1,2) by (metis mset_eq_imp_distinct_iff mset_map)
  have s: "set ys = set xs" using assms(2) by (rule mset_eq_setD)
  have inj: "inj_on k (set ys \<union> set (sort_key k xs))"
    using assms(1) s by (simp add: distinct_map)
  show ?thesis
    by (rule map_sorted_distinct_set_unique [OF inj assms(3) d])
       (use assms(1) s in \<open>simp_all add: distinct_map\<close>)
qed

text \<open>
  C7: when the faces have pairwise distinct \<open>x1\<close>, sorting \<open>left-right\<close> and then sorting
  the result \<open>right-left\<close> gives the reverse of the first result.
\<close>

theorem left_right_then_right_left:
  assumes "distinct (map (\<lambda>f. x1 (bbox f)) faces)"
  shows "sort_by_direction (sort_by_direction faces ''left-right'') ''right-left''
         = rev (sort_by_direction faces ''left-right'')"
proof -
  let ?k = "\<lambda>f. x1 (bbox f)"
  let ?ys = "sort_key ?k faces"
  have "distinct (map ?k (rev ?ys))"
    using assms by (metis distinct_rev rev_map mset_eq_imp_distinct_iff mset_map mset_sort)
  moreover have "mset ?ys = mset (rev ?ys)" by simp
  moreover have "sorted (map ?k ?ys)" by simp
  ultimately have "?ys = sort_key ?k (rev ?ys)" by (rule sort_key_unique)
  then show ?thesis by (simp add: sort_by_direction_def sorted_py_def)
qed

theorem left_right_then_right_left_witness:
  "distinct (map (\<lambda>f. x1 (bbox f)) [sample_face 7 0 20, sample_face 2 1 30, sample_face 5 1 40])
   \<and> sort_by_direction [sample_face 7 0 20, sample_face 2 1 30, sample_face 5 1 40] ''left-right''
       = [sample_face 2 1 30, sample_face 5 1 40, sample_face 7 0 20]
   \<and> sort_by_direction
        (sort_by_direction [sample_face 7 0 20, sample_face 2 1 30, sample_face 5 1 40]
           ''left-right'') ''right-left''
       = [sample_face 7 0 20, sample_face 5 1 40, sample_face 2 1 30]"
  using left_right_then_right_left [of "[sample_face 7 0 20, sample_face 2 1 30, sample_face 5 1 40]"]
  by (simp add: sample_face_def sort_by_direction_def sorted_py_def)

section \<open>Extraction\<close>

lemma extract_faces_empty:
  "shape fr = [h, w, c] \<Longrightarrow> face_detector fa fr = Inr (Some detections) \<Longrightarrow>
   \<not> any_nonzero detections \<Longrightarrow> fst (extract_faces fa s fr) = Inr []"
  by (simp add: extract_faces_def)

lemma extract_faces_None:
  "shape fr = [h, w, c] \<Longrightarrow> face_detector fa fr = Inr None \<Longrightarrow>
   fst (extract_faces fa s fr) = Inl AttributeError"
  by (simp add: extract_faces_def)



section \<open>Cache hits and misses\<close>














section \<open>No detections\<close>

text \<open>
  C2 (the code departs from the claim): \<open>extract_faces\<close> starts from the empty list,
  guards its loop by \<^verbatim>\<open>if detections.any():\<close> and returns the list, so as to return
  the empty list when nothing is detected; on an empty matrix it does. OpenCV reports a
  frame without faces by \<open>None\<close>, on which the guard itself raises \<open>AttributeError\<close>.
\<close>

theorem extract_faces_none_raises:
  "fst (extract_faces (sample_analyser None) empty_state (sample_frame [2, 2, 3]))
     = Inl AttributeError
   \<and> fst (extract_faces (sample_analyser (Some [])) empty_state (sample_frame [2, 2, 3]))
     = Inr []"
  by (simp add: sample_defs extract_faces_def any_nonzero_def)

section \<open>Swallowed errors\<close>

text \<open>
  C4: when the body of the \<^verbatim>\<open>try\<close> of \<open>get_many_faces\<close> (cache lookup, extraction,
  sort, age filter, gender filter) raises \<open>AttributeError\<close> or \<open>ValueError\<close>, the call
  returns the empty list; neither error ever comes out of \<open>get_many_faces\<close>.
\<close>

theorem get_many_faces_swallows:
  "(fst (get_many_faces_try g fa s fr) \<in> {Inl AttributeError, Inl ValueError}
      \<longrightarrow> fst (get_many_faces g fa s fr) = Inr [])
   \<and> fst (get_many_faces g fa s fr) \<notin> {Inl AttributeError, Inl ValueError}"
  by (cases "get_many_faces_try g fa s fr" rule: prod.exhaust)
     (auto simp: get_many_faces_def split: sum.splits error.splits)

theorem get_many_faces_swallows_witness:
  "fst (get_many_faces_try no_globals (sample_analyser None) empty_state (sample_frame [2, 2, 3]))
     = Inl AttributeError
   \<and> fst (get_many_faces no_globals (sample_analyser None) empty_state (sample_frame [2, 2, 3]))
     = Inr []
   \<and> fst (get_many_faces_try no_globals (sample_analyser (Some [sample_row])) empty_state
            (sample_frame [2, 2]))
     = Inl ValueError
   \<and> fst (get_many_faces no_globals (sample_analyser (Some [sample_row])) empty_state
            (sample_frame [2, 2]))
     = Inr []"
  using get_many_faces_swallows
      [of no_globals "sample_analyser None" empty_state "sample_frame [2, 2, 3]"]
    get_many_faces_swallows
      [of no_globals "sample_analyser (Some [sample_row])" empty_state "sample_frame [2, 2]"]
  by (simp add: sample_defs get_many_faces_try_def cached_or_extracted_def get_faces_cache_def
      extract_faces_def)

section \<open>One face\<close>

text \<open>
  C6: when \<open>get_many_faces\<close> returns a list, \<open>get_one_face\<close> returns nothing for the
  empty list, the element at the position for a position in range (counted from the end
  when negative, as Python indexes), and the last element for any other position.
\<close>

theorem get_one_face_position:
  assumes "get_many_faces g fa s fr = (Inr many_faces, s')"
  shows "get_one_face g fa s fr position =
           (Inr (if many_faces = [] then None
                 else if 0 \<le> position \<and> position < int (length many_faces)
                   then Some (many_faces ! nat position)
                 else if - int (length many_faces) \<le> position \<and> position < 0
                   then Some (many_faces ! nat (int (length many_faces) + position))
                 else Some (last many_faces)), s')"
  using assms by (auto simp: get_one_face_def py_index_def)

theorem get_one_face_position_witness:
  "get_many_faces no_globals (sample_analyser None)
      (cached_state (sample_frame [2, 2, 3]) [sample_face 0 0 20, sample_face 5 1 30] [])
      (sample_frame [2, 2, 3])
     = (Inr [sample_face 0 0 20, sample_face 5 1 30],
        cached_state (sample_frame [2, 2, 3]) [sample_face 0 0 20, sample_face 5 1 30] [])
   \<and> fst (get_one_face no_globals (sample_analyser None)
      (cached_state (sample_frame [2, 2, 3]) [sample_face 0 0 20, sample_face 5 1 30] [])
      (sample_frame [2, 2, 3]) 1) = Inr (Some (sample_face 5 1 30))
   \<and> fst (get_one_face no_globals (sample_analyser None)
      (cached_state (sample_frame [2, 2, 3]) [sample_face 0 0 20, sample_face 5 1 30] [])
      (sample_frame [2, 2, 3]) 7) = Inr (Some (sample_face 5 1 30))
   \<and> fst (get_one_face no_globals (sample_analyser None)
      (cached_state (sample_frame [2, 2, 3]) [sample_face 0 0 20, sample_face 5 1 30] [])
      (sample_frame [2, 2, 3]) (- 2)) = Inr (Some (sample_face 0 0 20))
   \<and> get_many_faces no_globals (sample_analyser (Some [])) empty_state (sample_frame [2, 2, 3])
     = (Inr [], cached_state (sample_frame [2, 2, 3]) [] [sample_frame [2, 2, 3]])
   \<and> fst (get_one_face no_globals (sample_analyser (Some [])) empty_state
            (sample_frame [2, 2, 3]) 0)
     = Inr None"
proof -
  let ?s = "cached_state (sample_frame [2, 2, 3]) [sample_face 0 0 20, sample_face 5 1 30] []"
  have many: "get_many_faces no_globals (sample_analyser None) ?s (sample_frame [2, 2, 3])
              = (Inr [sample_face 0 0 20, sample_face 5 1 30], ?s)"
    by (simp add: sample_defs run_defs)
  have none: "get_many_faces no_globals (sample_analyser (Some [])) empty_state
                (sample_frame [2, 2, 3])
              = (Inr [], cached_state (sample_frame [2, 2, 3]) [] [sample_frame [2, 2, 3]])"
    by (simp add: sample_defs run_defs)
  from get_one_face_position [OF many, of 1] get_one_face_position [OF many, of 7]
    get_one_face_position [OF many, of "- 2"] get_one_face_position [OF none, of 0] many none
  show ?thesis by simp
qed

section \<open>Similar faces\<close>

lemma similar_faces_filter:
  assumes "\<forall>f \<in> set many_faces. \<forall>a b.
             normed_embedding f = Some a \<and> normed_embedding reference_face = Some b
             \<longrightarrow> length a = length b"
  shows "similar_faces many_faces reference_face face_distance =
           Inr (filter (\<lambda>f. case normed_embedding f of
                              None \<Rightarrow> False
                            | Some a \<Rightarrow> (case normed_embedding reference_face of
                                           None \<Rightarrow> False
                                         | Some b \<Rightarrow> 1 - dot a b < face_distance))
                  many_faces)"
  using assms
  by (induction many_faces) (auto simp: numpy_dot_def split: option.splits)

text \<open>
  C5: when \<open>get_many_faces\<close> returns a list, and the embeddings have one length (they are
  the recognizer's vectors of fixed length, so that their dot product exists),
  \<open>find_similar_faces\<close> returns the faces of that list, in their order, for which the
  face and the reference both have a \<open>normed_embedding\<close> and 1 minus the dot product of
  the two is below the distance; a face without \<open>normed_embedding\<close> is left out and
  nothing is raised.
\<close>

theorem find_similar_faces_filter:
  assumes "get_many_faces g fa s fr = (Inr many_faces, s')"
    and "\<forall>f \<in> set many_faces. \<forall>a b.
           normed_embedding f = Some a \<and> normed_embedding reference_face = Some b
           \<longrightarrow> length a = length b"
  shows "find_similar_faces g fa s fr reference_face face_distance =
           (Inr (filter (\<lambda>f. case normed_embedding f of
                              None \<Rightarrow> False
                            | Some a \<Rightarrow> (case normed_embedding reference_face of
                                           None \<Rightarrow> False
                                         | Some b \<Rightarrow> 1 - dot a b < face_distance))
                  many_faces), s')"
  using assms by (simp add: find_similar_faces_def similar_faces_filter)

theorem find_similar_faces_filter_witness:
  "get_many_faces no_globals (sample_analyser None)
      (cached_state (sample_frame [2, 2, 3])
         [(sample_face 0 0 20)\<lparr>normed_embedding := Some [1, 0]\<rparr>, sample_face 5 1 30,
          (sample_face 9 0 40)\<lparr>normed_embedding := Some [0, 1]\<rparr>] [])
      (sample_frame [2, 2, 3])
     = (Inr [(sample_face 0 0 20)\<lparr>normed_embedding := Some [1, 0]\<rparr>, sample_face 5 1 30,
             (sample_face 9 0 40)\<lparr>normed_embedding := Some [0, 1]\<rparr>],
        cached_state (sample_frame [2, 2, 3])
         [(sample_face 0 0 20)\<lparr>normed_embedding := Some [1, 0]\<rparr>, sample_face 5 1 30,
          (sample_face 9 0 40)\<lparr>normed_embedding := Some [0, 1]\<rparr>] [])
   \<and> fst (find_similar_faces no_globals (sample_analyser None)
      (cached_state (sample_frame [2, 2, 3])
         [(sample_face 0 0 20)\<lparr>normed_embedding := Some [1, 0]\<rparr>, sample_face 5 1 30,
          (sample_face 9 0 40)\<lparr>normed_embedding := Some [0, 1]\<rparr>] [])
      (sample_frame [2, 2, 3]) ((sample_face 3 0 50)\<lparr>normed_embedding := Some [1, 0]\<rparr>) (1 / 2))
     = Inr [(sample_face 0 0 20)\<lparr>normed_embedding := Some [1, 0]\<rparr>]"
proof -
  let ?faces = "[(sample_face 0 0 20)\<lparr>normed_embedding := Some [1, 0]\<rparr>, sample_face 5 1 30,
          (sample_face 9 0 40)\<lparr>normed_embedding := Some [0, 1]\<rparr>]"
  let ?s = "cached_state (sample_frame [2, 2, 3]) ?faces []"
  have many: "get_many_faces no_globals (sample_analyser None) ?s (sample_frame [2, 2, 3])
              = (Inr ?faces, ?s)"
    by (simp add: sample_defs run_defs)
  have len: "\<forall>f \<in> set ?faces. \<forall>a b. normed_embedding f = Some a
               \<and> normed_embedding ((sample_face 3 0 50)\<lparr>normed_embedding := Some [1, 0]\<rparr>) = Some b
             \<longrightarrow> length a = length b"
    by (auto simp: sample_face_def)
  from find_similar_faces_filter [OF many len, of "1 / 2"] many
  show ?thesis by (simp add: sample_face_def dot_def)
qed

section \<open>Normalisation\<close>








end
